theory Spec2Isabelle
  imports Main "HOL-Library.AList"
begin

section \<open>ShareLink: the in-memory share registry of server.js\<close>

text \<open>
  The repository holds the share registry twice: in the single-file server
  \<^verbatim>\<open>server.js\<close>, and in the backend (\<^verbatim>\<open>backend/models/Share.js\<close> with the routes
  \<^verbatim>\<open>backend/routes/upload.js\<close> and \<^verbatim>\<open>backend/routes/share.js\<close>). This section embeds
  \<^verbatim>\<open>server.js\<close>: the global \<^verbatim>\<open>shares\<close> Map, the periodic clean-up callback,
  \<^verbatim>\<open>generateSlug\<close>, \<^verbatim>\<open>hashPin\<close> and the handlers for \<^verbatim>\<open>POST /api/upload\<close>,
  \<^verbatim>\<open>GET /share/:slug\<close> and \<^verbatim>\<open>DELETE /api/share/:slug\<close>. The backend follows in the
  next section.

  JavaScript Numbers are modelled as mathematical integers: exact for the timestamps and
  counters of the program below \<open>2^53\<close>, where a double is an integer. Strings are
  byte strings, exact for ASCII text.
\<close>

subsection \<open>JavaScript values and truthiness\<close>

text \<open>
  \<^verbatim>\<open>share.expiresAt\<close> holds \<^verbatim>\<open>null\<close>, \<^verbatim>\<open>NaN\<close> (when \<^verbatim>\<open>parseInt(ttl)\<close> is
  \<^verbatim>\<open>NaN\<close>) or a number.
\<close>

datatype jsnum = JNull | JNaN | JNum int

text \<open>In a condition, \<^verbatim>\<open>null\<close>, \<^verbatim>\<open>NaN\<close> and \<^verbatim>\<open>0\<close> count as false.\<close>

fun truthy_num :: "jsnum \<Rightarrow> bool" where
  "truthy_num JNull = False"
| "truthy_num JNaN = False"
| "truthy_num (JNum n) = (n \<noteq> 0)"

text \<open>\<^verbatim>\<open>now > x\<close>: a comparison with \<^verbatim>\<open>NaN\<close> is false, \<^verbatim>\<open>null\<close> converts to 0.\<close>

fun js_gt :: "int \<Rightarrow> jsnum \<Rightarrow> bool" where
  "js_gt now JNull = (now > 0)"
| "js_gt now JNaN = False"
| "js_gt now (JNum e) = (now > e)"

text \<open>
  A field of \<^verbatim>\<open>req.body\<close> or \<^verbatim>\<open>req.query\<close> is a string or \<^verbatim>\<open>undefined\<close>
  (\<open>None\<close>); \<^verbatim>\<open>undefined\<close>, \<^verbatim>\<open>null\<close> and the empty string count as false.
\<close>

fun truthy_str :: "string option \<Rightarrow> bool" where
  "truthy_str None = False"
| "truthy_str (Some s) = (s \<noteq> [])"

subsection \<open>\<^verbatim>\<open>parseInt\<close> with no radix argument\<close>

definition isStrWhiteSpaceChar :: "char \<Rightarrow> bool" where
  "isStrWhiteSpaceChar c \<longleftrightarrow>
     (let n = (of_char c :: nat) in (9 \<le> n \<and> n \<le> 13) \<or> n = 32)"

definition digitValue :: "char \<Rightarrow> nat option" where
  "digitValue c =
     (let n = (of_char c :: nat) in
      if 48 \<le> n \<and> n \<le> 57 then Some (n - 48)
      else if 97 \<le> n \<and> n \<le> 122 then Some (n - 87)
      else if 65 \<le> n \<and> n \<le> 90 then Some (n - 55)
      else None)"

definition radixDigit :: "nat \<Rightarrow> char \<Rightarrow> nat option" where
  "radixDigit R c =
     (case digitValue c of None \<Rightarrow> None | Some d \<Rightarrow> if d < R then Some d else None)"

text \<open>The longest prefix of radix-\<open>R\<close> digits, as digit values.\<close>

fun leadingDigits :: "nat \<Rightarrow> string \<Rightarrow> nat list" where
  "leadingDigits R [] = []"
| "leadingDigits R (c # cs) =
     (case radixDigit R c of None \<Rightarrow> [] | Some d \<Rightarrow> d # leadingDigits R cs)"

definition digitsToNat :: "nat \<Rightarrow> nat list \<Rightarrow> nat" where
  "digitsToNat R ds = foldl (\<lambda>acc d. acc * R + d) 0 ds"

text \<open>
  \<^verbatim>\<open>parseInt(string)\<close>: skip leading white space, read a sign, strip a \<^verbatim>\<open>0x\<close>
  prefix (then radix 16, else 10), read the longest prefix of digits; \<open>None\<close> is
  \<^verbatim>\<open>NaN\<close> (no digit). White space is the ASCII part of the language's list (tab,
  line feed, vertical tab, form feed, carriage return, space).
\<close>

definition parseInt :: "string \<Rightarrow> int option" where
  "parseInt inputString =
     (let S = dropWhile isStrWhiteSpaceChar inputString;
          sign = (if S \<noteq> [] \<and> hd S = CHR ''-'' then - 1 else (1 :: int));
          S1 = (if S \<noteq> [] \<and> (hd S = CHR ''+'' \<or> hd S = CHR ''-'') then tl S else S);
          hex = (take 2 S1 = ''0x'' \<or> take 2 S1 = ''0X'');
          R = (if hex then 16 else 10);
          Z = leadingDigits R (if hex then drop 2 S1 else S1)
      in if Z = [] then None else Some (sign * int (digitsToNat R Z)))"

subsection \<open>Share records and the \<^verbatim>\<open>shares\<close> Map\<close>

text \<open>
  A file of a share: \<^verbatim>\<open>{ originalName, path, size, mimetype }\<close> (\<open>fsize\<close> is the
  source's \<^verbatim>\<open>size\<close>).
\<close>

record file_entry =
  originalName :: string
  path :: string
  fsize :: nat
  mimetype :: string

text \<open>
  \<^verbatim>\<open>shareData\<close>: \<open>share_id\<close> is the source's \<^verbatim>\<open>id\<close>; \<open>pin\<close> is \<^verbatim>\<open>null\<close>
  (\<open>None\<close>) or the hex digest of the PIN. The record has no other field.
\<close>

record share =
  share_id :: string
  files :: "file_entry list"
  createdAt :: int
  downloads :: nat
  pin :: "string option"
  expiresAt :: jsnum

text \<open>
  \<^verbatim>\<open>const shares = new Map()\<close>: a JavaScript Map keeps its entries in insertion order,
  so it is an association list; \<^verbatim>\<open>set\<close> on a present key replaces the value in place,
  on an absent key appends the entry.
\<close>

type_synonym shares = "(string \<times> share) list"

definition shares_has :: "shares \<Rightarrow> string \<Rightarrow> bool" where
  "shares_has s slug \<longleftrightarrow> slug \<in> fst ` set s"

definition shares_get :: "shares \<Rightarrow> string \<Rightarrow> share option" where
  "shares_get s slug = map_of s slug"

definition shares_set :: "shares \<Rightarrow> string \<Rightarrow> share \<Rightarrow> shares" where
  "shares_set s slug v = AList.update slug v s"

definition shares_delete :: "shares \<Rightarrow> string \<Rightarrow> shares" where
  "shares_delete s slug = AList.delete slug s"

subsection \<open>The upload directory\<close>

text \<open>
  The disk as the handlers see it through \<^verbatim>\<open>fs.unlinkSync\<close>: the paths that exist,
  the paths whose removal the operating system refuses, and the calls made so far.
\<close>

record filesys =
  on_disk :: "string list"
  undeletable :: "string list"
  unlink_calls :: "string list"

text \<open>
  \<^verbatim>\<open>fs.unlinkSync(p)\<close> removes the file or throws (\<open>False\<close>): the file is missing or
  cannot be removed.
\<close>

definition unlinkSync :: "string \<Rightarrow> filesys \<Rightarrow> bool \<times> filesys" where
  "unlinkSync p d =
     (if p \<in> set (on_disk d) \<and> p \<notin> set (undeletable d)
      then (True, d\<lparr>on_disk := removeAll p (on_disk d), unlink_calls := unlink_calls d @ [p]\<rparr>)
      else (False, d\<lparr>unlink_calls := unlink_calls d @ [p]\<rparr>))"

text \<open>
  \<^verbatim>\<open>share.files.forEach(file => { try { fs.unlinkSync(file.path) } catch (err) { log } })\<close>:
  an exception is logged and the loop goes on.
\<close>

fun unlink_files :: "file_entry list \<Rightarrow> filesys \<Rightarrow> filesys" where
  "unlink_files [] d = d"
| "unlink_files (f # fs) d = unlink_files fs (snd (unlinkSync (path f) d))"

subsection \<open>The clean-up callback of \<^verbatim>\<open>setInterval\<close>\<close>

text \<open>The guard \<^verbatim>\<open>share.expiresAt && now > share.expiresAt\<close>.\<close>

definition expired :: "int \<Rightarrow> share \<Rightarrow> bool" where
  "expired now sh \<longleftrightarrow> truthy_num (expiresAt sh) \<and> js_gt now (expiresAt sh)"

text \<open>
  One cycle at \<^verbatim>\<open>now = Date.now()\<close>: the entries are visited in Map order; an expired
  one has its files unlinked and is deleted from the Map.
\<close>

fun sweeper :: "int \<Rightarrow> shares \<Rightarrow> filesys \<Rightarrow> shares \<times> filesys" where
  "sweeper now [] d = ([], d)"
| "sweeper now ((slug, sh) # rest) d =
     (if expired now sh then sweeper now rest (unlink_files (files sh) d)
      else (let (rest', d') = sweeper now rest d in ((slug, sh) # rest', d')))"

subsection \<open>\<^verbatim>\<open>generateSlug\<close> and \<^verbatim>\<open>hashPin\<close>\<close>

text \<open>
  The \<^verbatim>\<open>do ... while (shares.has(slug))\<close> loop: \<open>draws\<close> are the successive values of
  \<^verbatim>\<open>Math.random().toString(36).substring(2, 8)\<close>. The loop returns the first draw that
  is no key of the Map; \<open>None\<close> when every draw is taken (the loop is still running).
\<close>

fun first_free :: "shares \<Rightarrow> string list \<Rightarrow> string option" where
  "first_free s [] = None"
| "first_free s (x # xs) = (if shares_has s x then first_free s xs else Some x)"

definition generateSlug :: "shares \<Rightarrow> string option \<Rightarrow> string list \<Rightarrow> string option" where
  "generateSlug s customSlug draws =
     (if truthy_str customSlug \<and> \<not> shares_has s (the customSlug) then customSlug
      else first_free s draws)"

text \<open>
  \<^verbatim>\<open>crypto.createHash('sha256').update(pin).digest('hex')\<close>: the digest function of
  the crypto library is the parameter \<open>sha256_hex\<close>; nothing else enters the hash.
\<close>

definition hashPin :: "(string \<Rightarrow> string) \<Rightarrow> string \<Rightarrow> string" where
  "hashPin sha256_hex p = sha256_hex p"

subsection \<open>\<^verbatim>\<open>POST /api/upload\<close>\<close>

text \<open>
  The request after multer: \<^verbatim>\<open>req.files\<close> (already written to the upload
  directory; \<open>[]\<close> also stands for \<^verbatim>\<open>undefined\<close>) and the fields of \<^verbatim>\<open>req.body\<close>.
  The handler reads \<^verbatim>\<open>pin\<close>, \<^verbatim>\<open>customSlug\<close> and \<^verbatim>\<open>ttl\<close> only; a
  \<^verbatim>\<open>maxDownloads\<close> field the client sends stays in the body unread. (A request that
  multer refuses, such as one with more than ten files, never reaches the handler.)
\<close>

record upload_req =
  req_files :: "file_entry list"
  body_pin :: "string option"
  body_customSlug :: "string option"
  body_ttl :: "string option"
  body_maxDownloads :: "string option"

datatype upload_response =
    NoFilesUploaded400
  | UploadOk string nat nat
  | UploadFailed500

text \<open>
  \<^verbatim>\<open>expiresAt: ttl ? Date.now() + (parseInt(ttl) * 60 * 1000) : null\<close>, as an exact
  integer (the code's double is that integer while it stays below \<open>2^53\<close>).
\<close>

definition expiry_of :: "string option \<Rightarrow> int \<Rightarrow> jsnum" where
  "expiry_of ttl now =
     (if truthy_str ttl
      then (case parseInt (the ttl) of None \<Rightarrow> JNaN | Some n \<Rightarrow> JNum (now + n * 60 * 1000))
      else JNull)"

definition shareData :: "(string \<Rightarrow> string) \<Rightarrow> upload_req \<Rightarrow> string \<Rightarrow> int \<Rightarrow> int \<Rightarrow> share" where
  "shareData sha256_hex req uuid t_created t_expiry =
     \<lparr> share_id = uuid,
       files = req_files req,
       createdAt = t_created,
       downloads = 0,
       pin = (if truthy_str (body_pin req) then Some (hashPin sha256_hex (the (body_pin req))) else None),
       expiresAt = expiry_of (body_ttl req) t_expiry \<rparr>"

text \<open>
  The handler. \<open>uuid\<close> is the value of \<^verbatim>\<open>uuidv4()\<close>, \<open>t_created\<close> and \<open>t_expiry\<close>
  the two readings of \<^verbatim>\<open>Date.now()\<close>, \<open>draws\<close> the random slugs, \<open>qr_ok\<close> whether
  \<^verbatim>\<open>QRCode.toDataURL\<close> resolves (a rejection is caught: status 500, after the record
  was stored). The result is \<open>None\<close> when \<^verbatim>\<open>generateSlug\<close> does not return.
\<close>

definition upload ::
  "(string \<Rightarrow> string) \<Rightarrow> upload_req \<Rightarrow> string \<Rightarrow> int \<Rightarrow> int \<Rightarrow> string list \<Rightarrow> bool \<Rightarrow> shares
     \<Rightarrow> (upload_response \<times> shares) option" where
  "upload sha256_hex req uuid t_created t_expiry draws qr_ok s =
     (if req_files req = [] then Some (NoFilesUploaded400, s)
      else (case generateSlug s (body_customSlug req) draws of
              None \<Rightarrow> None
            | Some slug \<Rightarrow>
                Some (if qr_ok
                      then UploadOk slug (length (req_files req)) (sum_list (map fsize (req_files req)))
                      else UploadFailed500,
                      shares_set s slug (shareData sha256_hex req uuid t_created t_expiry))))"

subsection \<open>\<^verbatim>\<open>GET /share/:slug\<close>\<close>

text \<open>
  The handler answers 404, 401, the single file, or a ZIP of the files named after the
  slug. It has no other answer.
\<close>

datatype download_response =
    ShareNotFound404
  | PinRequiredOrIncorrect401
  | SendFile file_entry
  | SendZip string "file_entry list"

text \<open>
  \<open>SendFile f\<close> is the call \<^verbatim>\<open>res.sendFile(path.resolve(file.path))\<close>: the client
  gets the file when it is on disk (otherwise express answers with an error).
\<close>

definition sendFile_delivers :: "filesys \<Rightarrow> file_entry \<Rightarrow> bool" where
  "sendFile_delivers d f \<longleftrightarrow> path f \<in> set (on_disk d)"

text \<open>
  \<^verbatim>\<open>if (share.pin) { if (!pin || hashPin(pin) !== share.pin) return 401 }\<close>:
  \<open>pin_rejected\<close> is that condition, for the query's \<^verbatim>\<open>pin\<close>: a string, or
  \<^verbatim>\<open>undefined\<close>. (A query that repeats the parameter gives an array, on which
  \<^verbatim>\<open>hashPin\<close> throws; such a request is outside this definition.)
\<close>

definition pin_rejected :: "(string \<Rightarrow> string) \<Rightarrow> share \<Rightarrow> string option \<Rightarrow> bool" where
  "pin_rejected sha256_hex sh query_pin \<longleftrightarrow>
     truthy_str (pin sh) \<and>
     (\<not> truthy_str query_pin \<or> Some (hashPin sha256_hex (the query_pin)) \<noteq> pin sh)"

definition download ::
  "(string \<Rightarrow> string) \<Rightarrow> shares \<Rightarrow> string \<Rightarrow> string option \<Rightarrow> download_response \<times> shares" where
  "download sha256_hex s slug query_pin =
     (case shares_get s slug of
        None \<Rightarrow> (ShareNotFound404, s)
      | Some sh \<Rightarrow>
          if pin_rejected sha256_hex sh query_pin then (PinRequiredOrIncorrect401, s)
          else (case files sh of
                  [f] \<Rightarrow> SendFile f
                | fs \<Rightarrow> SendZip slug fs,
                shares_set s slug (sh\<lparr>downloads := downloads sh + 1\<rparr>)))"

subsection \<open>\<^verbatim>\<open>DELETE /api/share/:slug\<close>\<close>

datatype delete_response = DeleteNotFound404 | DeleteSuccess

definition delete_share :: "shares \<Rightarrow> filesys \<Rightarrow> string \<Rightarrow> delete_response \<times> shares \<times> filesys" where
  "delete_share s d slug =
     (case shares_get s slug of
        None \<Rightarrow> (DeleteNotFound404, s, d)
      | Some sh \<Rightarrow> (DeleteSuccess, shares_delete s slug, unlink_files (files sh) d))"

subsection \<open>Request sequences\<close>


text \<open>
  The process state is the Map and the disk. Node runs each handler and each clean-up
  cycle to its end before the next one starts (the upload handler's only \<^verbatim>\<open>await\<close>
  comes after \<^verbatim>\<open>shares.set\<close>), so a run of the server is a sequence of events.
\<close>

record world =
  store :: shares
  disk :: filesys

datatype event =
    Upload upload_req string int int "string list" bool
  | Download string "string option"
  | Delete string
  | Sweep int

fun step :: "(string \<Rightarrow> string) \<Rightarrow> world \<Rightarrow> event \<Rightarrow> world option" where
  "step sha256_hex w (Upload req uuid t_created t_expiry draws qr_ok) =
     (case upload sha256_hex req uuid t_created t_expiry draws qr_ok (store w) of
        None \<Rightarrow> None
      | Some (r, s') \<Rightarrow> Some (w\<lparr>store := s'\<rparr>))"
| "step sha256_hex w (Download slug query_pin) =
     Some (w\<lparr>store := snd (download sha256_hex (store w) slug query_pin)\<rparr>)"
| "step sha256_hex w (Delete slug) =
     (case delete_share (store w) (disk w) slug of
        (r, s', d') \<Rightarrow> Some \<lparr>store = s', disk = d'\<rparr>)"
| "step sha256_hex w (Sweep now) =
     (case sweeper now (store w) (disk w) of (s', d') \<Rightarrow> Some \<lparr>store = s', disk = d'\<rparr>)"

text \<open>\<open>None\<close>: an upload of the sequence never left the slug loop.\<close>

fun run :: "(string \<Rightarrow> string) \<Rightarrow> world \<Rightarrow> event list \<Rightarrow> world option" where
  "run sha256_hex w [] = Some w"
| "run sha256_hex w (e # es) =
     (case step sha256_hex w e of None \<Rightarrow> None | Some w' \<Rightarrow> run sha256_hex w' es)"

subsection \<open>The specification's slug pattern\<close>

text \<open>
  Following the specification's words, not the code: a user-supplied slug "matches
  \<^verbatim>\<open>[A-Za-z0-9_-]+\<close>".
\<close>

definition spec_slug_char :: "char \<Rightarrow> bool" where
  "spec_slug_char c \<longleftrightarrow>
     (let n = (of_char c :: nat) in
      (65 \<le> n \<and> n \<le> 90) \<or> (97 \<le> n \<and> n \<le> 122) \<or> (48 \<le> n \<and> n \<le> 57)
      \<or> c = CHR ''_'' \<or> c = CHR ''-'')"

definition spec_slug_pattern :: "string \<Rightarrow> bool" where
  "spec_slug_pattern slug \<longleftrightarrow> slug \<noteq> [] \<and> list_all spec_slug_char slug"

section \<open>The backend registry: backend/models/Share.js and its routes\<close>

text \<open>
  The backend server keeps its shares in the module \<^verbatim>\<open>models/Share.js\<close> and serves them
  through \<^verbatim>\<open>routes/upload.js\<close> (\<^verbatim>\<open>POST /api/upload\<close>, \<^verbatim>\<open>POST /api/upload/single\<close>)
  and \<^verbatim>\<open>routes/share.js\<close> (\<^verbatim>\<open>GET /api/share/:slug/download\<close>). It is a second
  implementation of the registry of \<^verbatim>\<open>server.js\<close>, with its own Map.
\<close>

subsection \<open>Numbers read from strings\<close>

text \<open>
  The value of \<^verbatim>\<open>Number(s)\<close> for a string: \<^verbatim>\<open>NaN\<close>, an infinity, or a finite double,
  which is a number \<open>m * 2^e\<close> (\<open>DFin m e\<close>). The conversion itself is the language's;
  it is the parameter \<open>toNumber\<close> of the definitions below, as the digest function is.
\<close>

datatype jsdouble = DNaN | DNegInf | DFin int int | DPosInf

text \<open>\<^verbatim>\<open>k >= x\<close> for a counter \<open>k\<close>; a comparison with \<^verbatim>\<open>NaN\<close> is false.\<close>

fun nat_ge_double :: "nat \<Rightarrow> jsdouble \<Rightarrow> bool" where
  "nat_ge_double k DNaN = False"
| "nat_ge_double k DNegInf = True"
| "nat_ge_double k DPosInf = False"
| "nat_ge_double k (DFin m e) =
     (if 0 \<le> e then m * 2 ^ nat e \<le> int k else m \<le> int k * 2 ^ nat (- e))"

text \<open>\<^verbatim>\<open>isNaN(s)\<close> for a string \<open>s\<close>.\<close>

definition js_isNaN :: "(string \<Rightarrow> jsdouble) \<Rightarrow> string \<Rightarrow> bool" where
  "js_isNaN toNumber s \<longleftrightarrow> toNumber s = DNaN"

subsection \<open>Share records of the backend\<close>

record share_metadata =
  userAgent :: "string option"
  ip :: "string option"

text \<open>
  The share object of \<^verbatim>\<open>createShare\<close>: the fields of \<^verbatim>\<open>server.js\<close>'s record, and
  \<^verbatim>\<open>maxDownloads\<close> (the request's string as it came, or \<^verbatim>\<open>null\<close>) and
  \<^verbatim>\<open>metadata\<close>. (A file entry also carries multer's \<^verbatim>\<open>filename\<close>, which nothing
  reads; it is left out.)
\<close>

record bshare = share +
  maxDownloads :: "string option"
  metadata :: share_metadata

type_synonym bshares = "(string \<times> bshare) list"

text \<open>The Map of the module, as in \<^verbatim>\<open>server.js\<close>.\<close>

definition bshares_has :: "bshares \<Rightarrow> string \<Rightarrow> bool" where
  "bshares_has s slug \<longleftrightarrow> slug \<in> fst ` set s"

definition bshares_get :: "bshares \<Rightarrow> string \<Rightarrow> bshare option" where
  "bshares_get s slug = map_of s slug"

definition bshares_set :: "bshares \<Rightarrow> string \<Rightarrow> bshare \<Rightarrow> bshares" where
  "bshares_set s slug v = AList.update slug v s"

definition bshares_delete :: "bshares \<Rightarrow> string \<Rightarrow> bshares" where
  "bshares_delete s slug = AList.delete slug s"

text \<open>
  The state of the backend process: the Map, the disk, and the pending
  \<^verbatim>\<open>setTimeout(() => deleteShare(slug), 1000)\<close> calls in the order they were made (the
  order they fire in).
\<close>

record backend =
  bstore :: bshares
  bdisk :: filesys
  btimers :: "string list"

subsection \<open>\<^verbatim>\<open>generateSlug\<close>, \<^verbatim>\<open>hashPin\<close>, \<^verbatim>\<open>validatePin\<close>\<close>

text \<open>\<^verbatim>\<open>/^[a-zA-Z0-9_-]+$/.test(customSlug)\<close>.\<close>

definition slug_char :: "char \<Rightarrow> bool" where
  "slug_char c \<longleftrightarrow>
     (let n = (of_char c :: nat) in
      (97 \<le> n \<and> n \<le> 122) \<or> (65 \<le> n \<and> n \<le> 90) \<or> (48 \<le> n \<and> n \<le> 57)
      \<or> c = CHR ''_'' \<or> c = CHR ''-'')"

definition slug_regex_test :: "string \<Rightarrow> bool" where
  "slug_regex_test customSlug \<longleftrightarrow> customSlug \<noteq> [] \<and> list_all slug_char customSlug"

fun Share_first_free :: "bshares \<Rightarrow> string list \<Rightarrow> string option" where
  "Share_first_free s [] = None"
| "Share_first_free s (x # xs) = (if bshares_has s x then Share_first_free s xs else Some x)"

text \<open>
  \<^verbatim>\<open>generateSlug\<close> of the module: the custom slug is returned when it is given, no key
  of the Map, and matches the pattern; in every other case the random loop runs.
\<close>

definition Share_generateSlug :: "bshares \<Rightarrow> string option \<Rightarrow> string list \<Rightarrow> string option" where
  "Share_generateSlug s customSlug draws =
     (if truthy_str customSlug \<and> \<not> bshares_has s (the customSlug)
      then (if slug_regex_test (the customSlug) then customSlug else Share_first_free s draws)
      else Share_first_free s draws)"

text \<open>
  \<^verbatim>\<open>crypto.createHash('sha256').update(pin + salt).digest('hex')\<close> with the constant
  \<^verbatim>\<open>salt = 'sharelink_salt'\<close>.
\<close>

definition Share_hashPin :: "(string \<Rightarrow> string) \<Rightarrow> string \<Rightarrow> string" where
  "Share_hashPin sha256_hex p = sha256_hex (p @ ''sharelink_salt'')"

text \<open>\<^verbatim>\<open>/^\d{4}$/.test(pin)\<close>.\<close>

definition Share_validatePin :: "string \<Rightarrow> bool" where
  "Share_validatePin p \<longleftrightarrow>
     length p = 4 \<and> list_all (\<lambda>c. 48 \<le> (of_char c :: nat) \<and> (of_char c :: nat) \<le> 57) p"

subsection \<open>\<^verbatim>\<open>createShare\<close>, \<^verbatim>\<open>deleteShare\<close>, \<^verbatim>\<open>incrementDownloads\<close>, \<^verbatim>\<open>validateSharePin\<close>\<close>

text \<open>
  The argument of \<^verbatim>\<open>createShare\<close> is the request as the upload routes pass it on: the
  files, the body fields \<^verbatim>\<open>customSlug\<close>, \<^verbatim>\<open>pin\<close>, \<^verbatim>\<open>ttl\<close>, \<^verbatim>\<open>maxDownloads\<close>, and
  the caller's user agent and address.
\<close>

record bupload_req = upload_req +
  req_userAgent :: "string option"
  req_ip :: "string option"

definition Share_shareData ::
  "(string \<Rightarrow> string) \<Rightarrow> bupload_req \<Rightarrow> string \<Rightarrow> int \<Rightarrow> int \<Rightarrow> bshare" where
  "Share_shareData sha256_hex req uuid t_created t_expiry =
     \<lparr> share_id = uuid,
       files = req_files req,
       createdAt = t_created,
       downloads = 0,
       pin = (if truthy_str (body_pin req)
              then Some (Share_hashPin sha256_hex (the (body_pin req))) else None),
       expiresAt = expiry_of (body_ttl req) t_expiry,
       maxDownloads = (if truthy_str (body_maxDownloads req) then body_maxDownloads req else None),
       metadata = \<lparr> userAgent = req_userAgent req, ip = req_ip req \<rparr> \<rparr>"

text \<open>\<open>None\<close> when \<^verbatim>\<open>generateSlug\<close> does not return.\<close>

definition Share_createShare ::
  "(string \<Rightarrow> string) \<Rightarrow> bupload_req \<Rightarrow> string \<Rightarrow> int \<Rightarrow> int \<Rightarrow> string list \<Rightarrow> bshares
     \<Rightarrow> (string \<times> bshare \<times> bshares) option" where
  "Share_createShare sha256_hex req uuid t_created t_expiry draws s =
     (case Share_generateSlug s (body_customSlug req) draws of
        None \<Rightarrow> None
      | Some slug \<Rightarrow>
          Some (slug, Share_shareData sha256_hex req uuid t_created t_expiry,
                bshares_set s slug (Share_shareData sha256_hex req uuid t_created t_expiry)))"

definition Share_deleteShare :: "bshares \<Rightarrow> filesys \<Rightarrow> string \<Rightarrow> bool \<times> bshares \<times> filesys" where
  "Share_deleteShare s d slug =
     (case bshares_get s slug of
        None \<Rightarrow> (False, s, d)
      | Some sh \<Rightarrow> (True, bshares_delete s slug, unlink_files (files sh) d))"

text \<open>\<^verbatim>\<open>share.maxDownloads && share.downloads >= share.maxDownloads\<close>.\<close>

definition limit_reached :: "(string \<Rightarrow> jsdouble) \<Rightarrow> bshare \<Rightarrow> bool" where
  "limit_reached toNumber sh \<longleftrightarrow>
     truthy_str (maxDownloads sh) \<and> nat_ge_double (downloads sh) (toNumber (the (maxDownloads sh)))"

text \<open>
  \<^verbatim>\<open>incrementDownloads\<close>: the counter goes up by one, and when the limit is reached a
  deletion of the slug is scheduled.
\<close>

definition Share_incrementDownloads ::
  "(string \<Rightarrow> jsdouble) \<Rightarrow> bshares \<Rightarrow> string list \<Rightarrow> string \<Rightarrow> bshares \<times> string list" where
  "Share_incrementDownloads toNumber s timers slug =
     (case bshares_get s slug of
        None \<Rightarrow> (s, timers)
      | Some sh \<Rightarrow>
          (bshares_set s slug (sh\<lparr>downloads := downloads sh + 1\<rparr>),
           if limit_reached toNumber (sh\<lparr>downloads := downloads sh + 1\<rparr>)
           then timers @ [slug] else timers))"

definition Share_validateSharePin ::
  "(string \<Rightarrow> string) \<Rightarrow> bshares \<Rightarrow> string \<Rightarrow> string option \<Rightarrow> bool" where
  "Share_validateSharePin sha256_hex s slug inputPin =
     (case bshares_get s slug of
        None \<Rightarrow> False
      | Some sh \<Rightarrow>
          if \<not> truthy_str (pin sh) then True
          else if \<not> truthy_str inputPin then False
          else Some (Share_hashPin sha256_hex (the inputPin)) = pin sh)"

text \<open>The condition under which \<^verbatim>\<open>validateSharePin\<close> accepts, on the share itself.\<close>

definition pin_accepted :: "(string \<Rightarrow> string) \<Rightarrow> bshare \<Rightarrow> string option \<Rightarrow> bool" where
  "pin_accepted sha256_hex sh q \<longleftrightarrow>
     \<not> truthy_str (pin sh) \<or> (truthy_str q \<and> Some (Share_hashPin sha256_hex (the q)) = pin sh)"

text \<open>A pending \<^verbatim>\<open>setTimeout\<close> callback fires: \<^verbatim>\<open>deleteShare(slug)\<close>.\<close>

definition timer_fires :: "backend \<Rightarrow> backend" where
  "timer_fires st =
     (case btimers st of
        [] \<Rightarrow> st
      | slug # rest \<Rightarrow>
          (case Share_deleteShare (bstore st) (bdisk st) slug of
             (r, s', d') \<Rightarrow> \<lparr> bstore = s', bdisk = d', btimers = rest \<rparr>))"

subsection \<open>\<^verbatim>\<open>GET /api/share/:slug/download\<close>\<close>

datatype share_download_response =
    SHARE_NOT_FOUND_404
  | SHARE_EXPIRED_404
  | DOWNLOAD_LIMIT_REACHED_410
  | INVALID_PIN_401 bool
  | FILE_NOT_FOUND_404
  | NO_FILES_FOUND_404
  | FileSent file_entry
  | ZipSent "file_entry list"

text \<open>The request was let through the gate: the counter was incremented for it.\<close>

definition authorized :: "share_download_response \<Rightarrow> bool" where
  "authorized r \<longleftrightarrow>
     (case r of FILE_NOT_FOUND_404 \<Rightarrow> True | NO_FILES_FOUND_404 \<Rightarrow> True
      | FileSent f \<Rightarrow> True | ZipSent fs \<Rightarrow> True | _ \<Rightarrow> False)"

text \<open>The guard \<^verbatim>\<open>share.expiresAt && Date.now() > share.expiresAt\<close> of the routes.\<close>

definition Share_expired :: "int \<Rightarrow> bshare \<Rightarrow> bool" where
  "Share_expired now sh \<longleftrightarrow> truthy_num (expiresAt sh) \<and> js_gt now (expiresAt sh)"

text \<open>
  What the route sends once the request is let through: the single file (whole or a
  range of it) when it exists, a ZIP of the files that exist, or 404 when none does.
\<close>

definition serve_files :: "filesys \<Rightarrow> file_entry list \<Rightarrow> share_download_response" where
  "serve_files d fs =
     (case fs of
        [f] \<Rightarrow> if path f \<in> set (on_disk d) then FileSent f else FILE_NOT_FOUND_404
      | _ \<Rightarrow>
          (let found = filter (\<lambda>f. path f \<in> set (on_disk d)) fs
           in if found = [] then NO_FILES_FOUND_404 else ZipSent found))"

text \<open>
  The route, at \<^verbatim>\<open>now = Date.now()\<close>: lookup, expiry, limit, PIN (\<^verbatim>\<open>pin\<close> of the query
  or else the header \<^verbatim>\<open>x-download-pin\<close>), then \<^verbatim>\<open>incrementDownloads\<close> and the files.
\<close>

definition share_download ::
  "(string \<Rightarrow> string) \<Rightarrow> (string \<Rightarrow> jsdouble) \<Rightarrow> backend \<Rightarrow> string \<Rightarrow> string option
     \<Rightarrow> string option \<Rightarrow> int \<Rightarrow> share_download_response \<times> backend" where
  "share_download sha256_hex toNumber st slug query_pin header_pin now =
     (case bshares_get (bstore st) slug of
        None \<Rightarrow> (SHARE_NOT_FOUND_404, st)
      | Some sh \<Rightarrow>
          if Share_expired now sh then
            (case Share_deleteShare (bstore st) (bdisk st) slug of
               (r, s', d') \<Rightarrow> (SHARE_EXPIRED_404, st\<lparr>bstore := s', bdisk := d'\<rparr>))
          else if limit_reached toNumber sh then
            (case Share_deleteShare (bstore st) (bdisk st) slug of
               (r, s', d') \<Rightarrow> (DOWNLOAD_LIMIT_REACHED_410, st\<lparr>bstore := s', bdisk := d'\<rparr>))
          else if \<not> Share_validateSharePin sha256_hex (bstore st) slug
                    (if truthy_str query_pin then query_pin else header_pin)
          then (INVALID_PIN_401 (truthy_str (pin sh)), st)
          else
            (case Share_incrementDownloads toNumber (bstore st) (btimers st) slug of
               (s', t') \<Rightarrow> (serve_files (bdisk st) (files sh), st\<lparr>bstore := s', btimers := t'\<rparr>)))"

subsection \<open>\<^verbatim>\<open>POST /api/upload\<close> and \<^verbatim>\<open>POST /api/upload/single\<close> of the backend\<close>

datatype bupload_response =
    NO_FILES_400
  | NO_FILE_400
  | INVALID_PIN_FORMAT_400
  | INVALID_TTL_400
  | INVALID_MAX_DOWNLOADS_400
  | Created_201 string bshare
  | UPLOAD_FAILED_500

text \<open>
  \<^verbatim>\<open>ttl && (isNaN(ttl) || parseInt(ttl) < 1 || parseInt(ttl) > 10080)\<close>, and the same
  test for \<^verbatim>\<open>maxDownloads\<close> with the bound 1000. A comparison with \<^verbatim>\<open>NaN\<close> is false.
\<close>

definition invalid_range :: "(string \<Rightarrow> jsdouble) \<Rightarrow> string option \<Rightarrow> int \<Rightarrow> bool" where
  "invalid_range toNumber v hi \<longleftrightarrow>
     truthy_str v \<and>
     (js_isNaN toNumber (the v) \<or>
      (case parseInt (the v) of None \<Rightarrow> False | Some n \<Rightarrow> n < 1) \<or>
      (case parseInt (the v) of None \<Rightarrow> False | Some n \<Rightarrow> n > hi))"

text \<open>
  The tail both routes share: \<^verbatim>\<open>createShare\<close>, then the QR code. When
  \<^verbatim>\<open>QRCode.toDataURL\<close> rejects, the \<^verbatim>\<open>catch\<close> block unlinks the uploaded files and
  answers 500; the share is in the Map by then.
\<close>

definition create_and_answer ::
  "(string \<Rightarrow> string) \<Rightarrow> bupload_req \<Rightarrow> string \<Rightarrow> int \<Rightarrow> int \<Rightarrow> string list \<Rightarrow> bool \<Rightarrow> backend
     \<Rightarrow> (bupload_response \<times> backend) option" where
  "create_and_answer sha256_hex req uuid t_created t_expiry draws qr_ok st =
     (case Share_createShare sha256_hex req uuid t_created t_expiry draws (bstore st) of
        None \<Rightarrow> None
      | Some (slug, sh, s') \<Rightarrow>
          Some (if qr_ok then (Created_201 slug sh, st\<lparr>bstore := s'\<rparr>)
                else (UPLOAD_FAILED_500,
                      st\<lparr>bstore := s', bdisk := unlink_files (req_files req) (bdisk st)\<rparr>)))"

text \<open>
  \<^verbatim>\<open>router.post('/', upload.array('files', 10), ...)\<close>, for a request multer has let
  through.
\<close>

definition upload_multiple ::
  "(string \<Rightarrow> string) \<Rightarrow> (string \<Rightarrow> jsdouble) \<Rightarrow> bupload_req \<Rightarrow> string \<Rightarrow> int \<Rightarrow> int
     \<Rightarrow> string list \<Rightarrow> bool \<Rightarrow> backend \<Rightarrow> (bupload_response \<times> backend) option" where
  "upload_multiple sha256_hex toNumber req uuid t_created t_expiry draws qr_ok st =
     (if req_files req = [] then Some (NO_FILES_400, st)
      else if truthy_str (body_pin req) \<and> \<not> Share_validatePin (the (body_pin req))
      then Some (INVALID_PIN_FORMAT_400, st)
      else if invalid_range toNumber (body_ttl req) 10080 then Some (INVALID_TTL_400, st)
      else if invalid_range toNumber (body_maxDownloads req) 1000
      then Some (INVALID_MAX_DOWNLOADS_400, st)
      else create_and_answer sha256_hex req uuid t_created t_expiry draws qr_ok st)"

text \<open>
  \<^verbatim>\<open>router.post('/single', upload.single('file'), ...)\<close>: \<open>req_files\<close> holds the one
  file of \<^verbatim>\<open>req.file\<close>, or is empty. Under the comment "Same validation as multiple
  files" the route checks the PIN only.
\<close>

definition upload_single ::
  "(string \<Rightarrow> string) \<Rightarrow> bupload_req \<Rightarrow> string \<Rightarrow> int \<Rightarrow> int
     \<Rightarrow> string list \<Rightarrow> bool \<Rightarrow> backend \<Rightarrow> (bupload_response \<times> backend) option" where
  "upload_single sha256_hex req uuid t_created t_expiry draws qr_ok st =
     (if req_files req = [] then Some (NO_FILE_400, st)
      else if truthy_str (body_pin req) \<and> \<not> Share_validatePin (the (body_pin req))
      then Some (INVALID_PIN_FORMAT_400, st)
      else create_and_answer sha256_hex (req\<lparr>req_files := take 1 (req_files req)\<rparr>)
             uuid t_created t_expiry draws qr_ok st)"

text \<open>Successive download requests at the given times, with no timer firing in between.\<close>

fun share_download_seq ::
  "(string \<Rightarrow> string) \<Rightarrow> (string \<Rightarrow> jsdouble) \<Rightarrow> backend \<Rightarrow> string \<Rightarrow> (string option \<times> int) list
     \<Rightarrow> share_download_response list \<times> backend" where
  "share_download_seq sha256_hex toNumber st slug [] = ([], st)"
| "share_download_seq sha256_hex toNumber st slug ((q, now) # rest) =
     (let (r, st1) = share_download sha256_hex toNumber st slug q None now;
          (rs, st2) = share_download_seq sha256_hex toNumber st1 slug rest
      in (r # rs, st2))"

section \<open>Concrete inputs\<close>


definition ex_file :: "string \<Rightarrow> file_entry" where
  "ex_file p = \<lparr> originalName = ''a.txt'', path = p, fsize = 10, mimetype = ''text/plain'' \<rparr>"

definition ex_share :: "file_entry list \<Rightarrow> jsnum \<Rightarrow> share" where
  "ex_share fs e =
     \<lparr> share_id = ''7d2c'', files = fs, createdAt = 1000, downloads = 0, pin = None,
       expiresAt = e \<rparr>"

definition ex_disk :: filesys where
  "ex_disk =
     \<lparr> on_disk = [''uploads/1-a.txt'', ''uploads/2-a.txt''],
       undeletable = [''uploads/2-a.txt''],
       unlink_calls = [] \<rparr>"

text \<open>An upload of one file with the given \<^verbatim>\<open>customSlug\<close>, \<^verbatim>\<open>ttl\<close> and \<^verbatim>\<open>maxDownloads\<close>, no PIN.\<close>

definition ex_req :: "string option \<Rightarrow> string option \<Rightarrow> string option \<Rightarrow> upload_req" where
  "ex_req custom ttl maxd =
     \<lparr> req_files = [ex_file ''uploads/1-a.txt''], body_pin = None, body_customSlug = custom,
       body_ttl = ttl, body_maxDownloads = maxd \<rparr>"

text \<open>The same for the backend: a request, a stored share, and the state at start.\<close>

definition ex_breq :: "string option \<Rightarrow> string option \<Rightarrow> string option \<Rightarrow> bupload_req" where
  "ex_breq custom ttl maxd =
     \<lparr> req_files = [ex_file ''uploads/1-a.txt''], body_pin = None, body_customSlug = custom,
       body_ttl = ttl, body_maxDownloads = maxd, req_userAgent = None, req_ip = None \<rparr>"

definition ex_bshare :: "jsnum \<Rightarrow> string option \<Rightarrow> bshare" where
  "ex_bshare e maxd =
     \<lparr> share_id = ''7d2c'', files = [ex_file ''uploads/1-a.txt''], createdAt = 1000,
       downloads = 0, pin = None, expiresAt = e, maxDownloads = maxd,
       metadata = \<lparr> userAgent = None, ip = None \<rparr> \<rparr>"

definition ex_backend :: backend where
  "ex_backend = \<lparr> bstore = [], bdisk = ex_disk, btimers = [] \<rparr>"

section \<open>Properties\<close>

subsection \<open>The Map and the disk\<close>

lemma unlinkSync_calls: "unlink_calls (snd (unlinkSync p d)) = unlink_calls d @ [p]"
  by (simp add: unlinkSync_def)

lemma unlinkSync_undeletable: "undeletable (snd (unlinkSync p d)) = undeletable d"
  by (simp add: unlinkSync_def)

lemma unlinkSync_on_disk:
  "set (on_disk (snd (unlinkSync p d))) =
     (if p \<in> set (undeletable d) then set (on_disk d) else set (on_disk d) - {p})"
  by (auto simp: unlinkSync_def)

lemma unlink_files_calls: "unlink_calls (unlink_files fs d) = unlink_calls d @ map path fs"
  by (induction fs arbitrary: d) (simp_all add: unlinkSync_calls)

lemma unlink_files_undeletable: "undeletable (unlink_files fs d) = undeletable d"
  by (induction fs arbitrary: d) (simp_all add: unlinkSync_undeletable)

lemma unlink_files_on_disk:
  "set (on_disk (unlink_files fs d)) = set (on_disk d) - (path ` set fs - set (undeletable d))"
  by (induction fs arbitrary: d)
     (auto simp: unlinkSync_on_disk unlinkSync_undeletable split: if_splits)

lemma shares_has_get: "shares_has s slug \<longleftrightarrow> shares_get s slug \<noteq> None"
  by (simp add: shares_has_def shares_get_def map_of_eq_None_iff)

lemma shares_get_set:
  "shares_get (shares_set s k v) k' = (if k' = k then Some v else shares_get s k')"
  by (simp add: shares_get_def shares_set_def update_conv')

lemma shares_get_delete:
  "shares_get (shares_delete s slug) k = (if k = slug then None else shares_get s k)"
  by (simp add: shares_get_def shares_delete_def delete_conv')

lemma distinct_shares_set:
  "distinct (map fst s) \<Longrightarrow> distinct (map fst (shares_set s k v))"
  by (simp add: shares_set_def distinct_update)

lemma distinct_shares_delete:
  "distinct (map fst s) \<Longrightarrow> distinct (map fst (shares_delete s k))"
  by (simp add: shares_delete_def distinct_delete)

lemma shares_set_fresh: "\<not> shares_has s k \<Longrightarrow> shares_set s k v = s @ [(k, v)]"
  by (induction s) (auto simp: shares_has_def shares_set_def)

lemma first_free_Some: "first_free s draws = Some x \<Longrightarrow> x \<in> set draws \<and> \<not> shares_has s x"
  by (induction draws) (auto split: if_splits)

lemma first_free_returns: "x \<in> set draws \<Longrightarrow> \<not> shares_has s x \<Longrightarrow> \<exists>y. first_free s draws = Some y"
  by (induction draws) auto

lemma generateSlug_fresh: "generateSlug s c draws = Some slug \<Longrightarrow> \<not> shares_has s slug"
  by (cases c) (auto simp: generateSlug_def dest: first_free_Some split: if_splits)

lemma sweeper_store: "fst (sweeper now s d) = filter (\<lambda>(k, sh). \<not> expired now sh) s"
  by (induction s arbitrary: d) (auto simp: split_beta)

lemma distinct_sweeper: "distinct (map fst s) \<Longrightarrow> distinct (map fst (fst (sweeper now s d)))"
  by (simp add: sweeper_store distinct_map_filter)

lemma map_of_filter_distinct:
  "distinct (map fst s) \<Longrightarrow>
   map_of (filter (\<lambda>(k, v). P v) s) x =
     (case map_of s x of None \<Rightarrow> None | Some v \<Rightarrow> if P v then Some v else None)"
proof (induction s)
  case Nil
  then show ?case by simp
next
  case (Cons a s)
  obtain k v where a: "a = (k, v)" by (cases a)
  from Cons.prems a have fresh: "map_of s k = None"
    by (simp add: map_of_eq_None_iff)
  from Cons a fresh show ?case
    by (auto split: option.splits)
qed

lemma shares_get_sweeper:
  "distinct (map fst s) \<Longrightarrow>
   shares_get (fst (sweeper now s d)) slug =
     (case shares_get s slug of None \<Rightarrow> None
      | Some sh \<Rightarrow> if expired now sh then None else Some sh)"
  by (simp add: shares_get_def sweeper_store map_of_filter_distinct split: option.splits)

lemma download_store_keys:
  "map fst (snd (download H s slug q)) = map fst s"
proof (cases "shares_get s slug")
  case None
  then show ?thesis by (simp add: download_def)
next
  case (Some sh)
  then have "slug \<in> fst ` set s"
    using shares_has_get [of s slug] by (simp add: shares_has_def)
  then have "map fst (AList.update slug v s) = map fst s" for v
    by (simp add: update_keys)
  with Some show ?thesis
    by (simp add: download_def shares_set_def)
qed

lemma step_distinct:
  assumes "step H w e = Some w'" and "distinct (map fst (store w))"
  shows "distinct (map fst (store w'))"
proof (cases e)
  case (Upload req uuid t1 t2 draws qr)
  with assms show ?thesis
    by (auto simp: upload_def distinct_shares_set split: option.splits if_splits)
next
  case (Download slug q)
  with assms show ?thesis by (auto simp: download_store_keys)
next
  case (Delete slug)
  with assms show ?thesis
    by (auto simp: delete_share_def distinct_shares_delete split: option.splits)
next
  case (Sweep now)
  from assms(2) have "distinct (map fst (fst (sweeper now (store w) (disk w))))"
    by (rule distinct_sweeper)
  with assms Sweep show ?thesis
    by (auto split: prod.splits)
qed

lemma run_distinct:
  "run H w es = Some w' \<Longrightarrow> distinct (map fst (store w)) \<Longrightarrow> distinct (map fst (store w'))"
proof (induction es arbitrary: w)
  case Nil
  then show ?case by simp
next
  case (Cons e es)
  then show ?case
    by (auto split: option.splits dest: step_distinct)
qed

subsection \<open>Deleting a share\<close>

text \<open>
  Claim C8. \<^verbatim>\<open>DELETE /api/share/:slug\<close> answers whether a record existed: 404 on an
  absent slug, with the Map and the disk untouched. On a present slug it answers success
  and removes the record, so that a later \<^verbatim>\<open>shares.get(slug)\<close> is absent and every other
  slug keeps its record; it calls \<^verbatim>\<open>fs.unlinkSync\<close> once on every file of the record,
  in order. A call that throws does not stop the removal: this holds on every disk, and
  a file of the record that is still on disk afterwards is one the system refused to
  remove.
\<close>

theorem delete_share_correct:
  "(case delete_share s d slug of
      (resp, s', d') \<Rightarrow>
        (resp = DeleteSuccess) = shares_has s slug \<and>
        (resp = DeleteNotFound404) = (\<not> shares_has s slug) \<and>
        (\<not> shares_has s slug \<longrightarrow> s' = s \<and> d' = d) \<and>
        shares_get s' slug = None \<and>
        (\<forall>k. k \<noteq> slug \<longrightarrow> shares_get s' k = shares_get s k) \<and>
        (\<forall>sh. shares_get s slug = Some sh \<longrightarrow>
           unlink_calls d' = unlink_calls d @ map path (files sh) \<and>
           (\<forall>f \<in> set (files sh). path f \<in> set (on_disk d') \<longrightarrow> path f \<in> set (undeletable d))))"
proof (cases "shares_get s slug")
  case None
  then show ?thesis
    by (simp add: delete_share_def shares_has_get)
next
  case (Some sh)
  then show ?thesis
    by (simp add: delete_share_def shares_has_get shares_get_delete unlink_files_calls
        unlink_files_on_disk)
qed

text \<open>
  A share of two files, the second of which cannot be removed: both are tried, the
  record is gone.
\<close>

theorem delete_share_correct_witness:
  "delete_share
      [(''abc'', ex_share [ex_file ''uploads/1-a.txt'', ex_file ''uploads/2-a.txt''] JNull)]
      ex_disk ''abc''
    = (DeleteSuccess, [],
       \<lparr> on_disk = [''uploads/2-a.txt''], undeletable = [''uploads/2-a.txt''],
         unlink_calls = [''uploads/1-a.txt'', ''uploads/2-a.txt''] \<rparr>)
   \<and> shares_has
        [(''abc'', ex_share [ex_file ''uploads/1-a.txt'', ex_file ''uploads/2-a.txt''] JNull)]
        ''abc''
   \<and> shares_get [] ''abc'' = None"
  using delete_share_correct
    [where s = "[(''abc'', ex_share [ex_file ''uploads/1-a.txt'', ex_file ''uploads/2-a.txt''] JNull)]"
       and d = ex_disk and slug = "''abc''"]
  by (simp add: delete_share_def shares_get_def shares_has_def shares_delete_def ex_share_def
      ex_file_def ex_disk_def unlinkSync_def)

subsection \<open>Slugs\<close>

text \<open>
  Claim C5. Over every sequence of uploads, downloads, deletions and clean-up cycles, no
  two records of the Map have the same slug: the keys stay distinct from any state
  whose keys are distinct, and so from the empty Map the server starts with. The slug
  generator never returns a slug that is a key of the Map at that moment, so an upload
  appends one entry under a new key and replaces none; and the generator does return
  as soon as one of its random draws is free.
\<close>

theorem slugs_unique:
  "(distinct (map fst (store w)) \<and> run sha256_hex w es = Some w' \<longrightarrow> distinct (map fst (store w')))
   \<and> (run sha256_hex \<lparr>store = [], disk = d\<rparr> es = Some w' \<longrightarrow> distinct (map fst (store w')))
   \<and> (generateSlug s customSlug draws = Some slug \<longrightarrow> \<not> shares_has s slug)
   \<and> (req_files req \<noteq> [] \<and>
        upload sha256_hex req uuid t_created t_expiry draws qr_ok s = Some (resp, s') \<longrightarrow>
          (\<exists>new. \<not> shares_has s new \<and> map fst s' = map fst s @ [new]))
   \<and> ((\<exists>x \<in> set draws. \<not> shares_has s x) \<longrightarrow> generateSlug s customSlug draws \<noteq> None)"
proof (intro conjI impI)
  assume "distinct (map fst (store w)) \<and> run sha256_hex w es = Some w'"
  then show "distinct (map fst (store w'))"
    using run_distinct by blast
next
  assume "run sha256_hex \<lparr>store = [], disk = d\<rparr> es = Some w'"
  then show "distinct (map fst (store w'))"
    using run_distinct [of sha256_hex "\<lparr>store = [], disk = d\<rparr>" es w'] by simp
next
  assume "generateSlug s customSlug draws = Some slug"
  then show "\<not> shares_has s slug"
    by (rule generateSlug_fresh)
next
  assume a: "req_files req \<noteq> [] \<and>
    upload sha256_hex req uuid t_created t_expiry draws qr_ok s = Some (resp, s')"
  then obtain new where g: "generateSlug s (body_customSlug req) draws = Some new"
    and s': "s' = shares_set s new (shareData sha256_hex req uuid t_created t_expiry)"
    by (auto simp: upload_def split: option.splits)
  from g have fresh: "\<not> shares_has s new"
    by (rule generateSlug_fresh)
  with s' have "map fst s' = map fst s @ [new]"
    by (simp add: shares_set_fresh)
  with fresh show "\<exists>new. \<not> shares_has s new \<and> map fst s' = map fst s @ [new]"
    by blast
next
  assume "\<exists>x \<in> set draws. \<not> shares_has s x"
  then obtain y where "first_free s draws = Some y"
    using first_free_returns by blast
  then show "generateSlug s customSlug draws \<noteq> None"
    by (cases customSlug) (auto simp: generateSlug_def)
qed

text \<open>
  Two uploads (the second asks for the slug the first one got), a download, a clean-up
  cycle and a deletion.
\<close>

theorem slugs_unique_witness:
  "\<forall>sha256_hex.
     run sha256_hex \<lparr>store = [], disk = ex_disk\<rparr>
       [Upload (ex_req None None None) ''7d2c'' 1000 1000 [''k3x9q2''] True,
        Upload (ex_req (Some ''k3x9q2'') None None) ''91ab'' 2000 2000 [''k3x9q2'', ''p0z4aa''] True,
        Download ''k3x9q2'' None,
        Sweep 5000,
        Delete ''p0z4aa'']
     = Some \<lparr>store =
          [(''k3x9q2'', (shareData sha256_hex (ex_req None None None) ''7d2c'' 1000 1000)\<lparr>downloads := 1\<rparr>)],
         disk = ex_disk\<lparr>on_disk := [''uploads/2-a.txt''], unlink_calls := [''uploads/1-a.txt'']\<rparr>\<rparr>
   \<and> distinct (map fst
        [(''k3x9q2'', (shareData sha256_hex (ex_req None None None) ''7d2c'' 1000 1000)\<lparr>downloads := 1\<rparr>)])"
proof
  fix sha256_hex :: "string \<Rightarrow> string"
  let ?es = "[Upload (ex_req None None None) ''7d2c'' 1000 1000 [''k3x9q2''] True,
        Upload (ex_req (Some ''k3x9q2'') None None) ''91ab'' 2000 2000 [''k3x9q2'', ''p0z4aa''] True,
        Download ''k3x9q2'' None,
        Sweep 5000,
        Delete ''p0z4aa'']"
  let ?w = "\<lparr>store =
          [(''k3x9q2'', (shareData sha256_hex (ex_req None None None) ''7d2c'' 1000 1000)\<lparr>downloads := 1\<rparr>)],
         disk = ex_disk\<lparr>on_disk := [''uploads/2-a.txt''], unlink_calls := [''uploads/1-a.txt'']\<rparr>\<rparr>"
  have r: "run sha256_hex \<lparr>store = [], disk = ex_disk\<rparr> ?es = Some ?w"
    by (simp add: upload_def generateSlug_def shares_has_def shares_set_def shares_get_def
        shares_delete_def download_def pin_rejected_def delete_share_def shareData_def
        expiry_of_def expired_def unlinkSync_def ex_req_def ex_file_def ex_disk_def)
  show "run sha256_hex \<lparr>store = [], disk = ex_disk\<rparr> ?es = Some ?w
      \<and> distinct (map fst
        [(''k3x9q2'', (shareData sha256_hex (ex_req None None None) ''7d2c'' 1000 1000)\<lparr>downloads := 1\<rparr>)])"
    using r slugs_unique [where sha256_hex = sha256_hex and d = ex_disk and es = ?es and w' = ?w]
    by simp
qed

text \<open>
  Claim C7. An upload whose \<^verbatim>\<open>customSlug\<close> is the key of a stored record never
  replaces that record. \<^verbatim>\<open>generateSlug\<close> sees the collision and returns the first
  random draw that is no key of the Map, a slug different from the requested one; the
  new record is appended under it, and the first record, like every other stored
  record, is unchanged under its slug. The upload returns as soon as one draw is free.
\<close>

theorem custom_slug_collision_keeps_record:
  assumes "shares_get s c = Some old"
    and "body_customSlug req = Some c"
    and "req_files req \<noteq> []"
  shows "(\<forall>resp s'. upload sha256_hex req uuid t_created t_expiry draws qr_ok s = Some (resp, s') \<longrightarrow>
            shares_get s' c = Some old \<and>
            (\<forall>k. shares_has s k \<longrightarrow> shares_get s' k = shares_get s k) \<and>
            (\<exists>slug. first_free s draws = Some slug \<and> slug \<in> set draws \<and> slug \<noteq> c \<and>
               \<not> shares_has s slug \<and>
               s' = s @ [(slug, shareData sha256_hex req uuid t_created t_expiry)] \<and>
               (qr_ok \<longrightarrow> resp = UploadOk slug (length (req_files req))
                                  (sum_list (map fsize (req_files req))))))
       \<and> ((\<exists>x \<in> set draws. \<not> shares_has s x) \<longrightarrow>
            upload sha256_hex req uuid t_created t_expiry draws qr_ok s \<noteq> None)"
proof -
  from assms(1) have taken: "shares_has s c"
    by (simp add: shares_has_get)
  with assms(2) have gen: "generateSlug s (body_customSlug req) draws = first_free s draws"
    by (simp add: generateSlug_def)
  have "shares_get s' c = Some old \<and>
        (\<forall>k. shares_has s k \<longrightarrow> shares_get s' k = shares_get s k) \<and>
        (\<exists>slug. first_free s draws = Some slug \<and> slug \<in> set draws \<and> slug \<noteq> c \<and>
           \<not> shares_has s slug \<and>
           s' = s @ [(slug, shareData sha256_hex req uuid t_created t_expiry)] \<and>
           (qr_ok \<longrightarrow> resp = UploadOk slug (length (req_files req))
                              (sum_list (map fsize (req_files req)))))"
    if up: "upload sha256_hex req uuid t_created t_expiry draws qr_ok s = Some (resp, s')"
    for resp s'
  proof -
    from up assms(3) gen obtain slug where ff: "first_free s draws = Some slug"
      and s': "s' = shares_set s slug (shareData sha256_hex req uuid t_created t_expiry)"
      and resp: "qr_ok \<longrightarrow> resp = UploadOk slug (length (req_files req))
                              (sum_list (map fsize (req_files req)))"
      by (auto simp: upload_def split: option.splits if_splits)
    from ff have mem: "slug \<in> set draws" and fresh: "\<not> shares_has s slug"
      using first_free_Some by blast+
    from fresh taken have ne: "slug \<noteq> c" by blast
    from s' fresh have app: "s' = s @ [(slug, shareData sha256_hex req uuid t_created t_expiry)]"
      by (simp add: shares_set_fresh)
    have keep: "shares_get s' k = shares_get s k" if "shares_has s k" for k
    proof -
      from that fresh have "k \<noteq> slug" by blast
      with s' show ?thesis by (simp add: shares_get_set)
    qed
    from keep [OF taken] assms(1) have "shares_get s' c = Some old" by simp
    with keep ff mem ne fresh app resp show ?thesis by blast
  qed
  moreover have "upload sha256_hex req uuid t_created t_expiry draws qr_ok s \<noteq> None"
    if "\<exists>x \<in> set draws. \<not> shares_has s x"
  proof -
    from that obtain y where "first_free s draws = Some y"
      using first_free_returns by blast
    with gen assms(3) show ?thesis
      by (simp add: upload_def)
  qed
  ultimately show ?thesis by blast
qed

text \<open>The second upload of \<^verbatim>\<open>my-link\<close> gets the slug \<^verbatim>\<open>p0z4aa\<close>.\<close>

theorem custom_slug_collision_keeps_record_witness:
  "\<forall>sha256_hex.
     shares_get [(''my-link'', ex_share [ex_file ''uploads/1-a.txt''] JNull)] ''my-link''
       = Some (ex_share [ex_file ''uploads/1-a.txt''] JNull)
   \<and> upload sha256_hex (ex_req (Some ''my-link'') None None) ''91ab'' 2000 2000
        [''my-link'', ''p0z4aa''] True
        [(''my-link'', ex_share [ex_file ''uploads/1-a.txt''] JNull)]
       = Some (UploadOk ''p0z4aa'' 1 10,
               [(''my-link'', ex_share [ex_file ''uploads/1-a.txt''] JNull),
                (''p0z4aa'', shareData sha256_hex (ex_req (Some ''my-link'') None None) ''91ab'' 2000 2000)])
   \<and> shares_get
        [(''my-link'', ex_share [ex_file ''uploads/1-a.txt''] JNull),
         (''p0z4aa'', shareData sha256_hex (ex_req (Some ''my-link'') None None) ''91ab'' 2000 2000)]
        ''my-link''
       = Some (ex_share [ex_file ''uploads/1-a.txt''] JNull)"
proof
  fix sha256_hex :: "string \<Rightarrow> string"
  let ?s = "[(''my-link'', ex_share [ex_file ''uploads/1-a.txt''] JNull)]"
  let ?req = "ex_req (Some ''my-link'') None None"
  have g: "shares_get ?s ''my-link'' = Some (ex_share [ex_file ''uploads/1-a.txt''] JNull)"
    by (simp add: shares_get_def)
  have c: "body_customSlug ?req = Some ''my-link''" and f: "req_files ?req \<noteq> []"
    by (simp_all add: ex_req_def)
  have u: "upload sha256_hex ?req ''91ab'' 2000 2000 [''my-link'', ''p0z4aa''] True ?s
       = Some (UploadOk ''p0z4aa'' 1 10,
               ?s @ [(''p0z4aa'', shareData sha256_hex ?req ''91ab'' 2000 2000)])"
    by (simp add: upload_def generateSlug_def shares_has_def shares_set_def ex_req_def ex_file_def)
  from custom_slug_collision_keeps_record [OF g c f, of sha256_hex "''91ab''" 2000 2000
      "[''my-link'', ''p0z4aa'']" True] u
  have "shares_get (?s @ [(''p0z4aa'', shareData sha256_hex ?req ''91ab'' 2000 2000)]) ''my-link''
      = Some (ex_share [ex_file ''uploads/1-a.txt''] JNull)"
    by blast
  with g u show "shares_get ?s ''my-link'' = Some (ex_share [ex_file ''uploads/1-a.txt''] JNull)
   \<and> upload sha256_hex ?req ''91ab'' 2000 2000 [''my-link'', ''p0z4aa''] True ?s
       = Some (UploadOk ''p0z4aa'' 1 10,
               [(''my-link'', ex_share [ex_file ''uploads/1-a.txt''] JNull),
                (''p0z4aa'', shareData sha256_hex ?req ''91ab'' 2000 2000)])
   \<and> shares_get
        [(''my-link'', ex_share [ex_file ''uploads/1-a.txt''] JNull),
         (''p0z4aa'', shareData sha256_hex ?req ''91ab'' 2000 2000)]
        ''my-link''
       = Some (ex_share [ex_file ''uploads/1-a.txt''] JNull)"
    by simp
qed

text \<open>
  Claim C4 fails on \<^verbatim>\<open>server.js\<close>: its \<^verbatim>\<open>generateSlug\<close> tests
  \<^verbatim>\<open>customSlug && !shares.has(customSlug)\<close> and nothing else, so a free custom slug
  with characters outside \<^verbatim>\<open>[A-Za-z0-9_-]\<close> is returned as it is.
\<close>

theorem custom_slug_not_validated:
  "generateSlug [] (Some ''../my link'') [''k3x9q2''] = Some ''../my link''
   \<and> \<not> spec_slug_pattern ''../my link''"
  by (simp add: generateSlug_def shares_has_def spec_slug_pattern_def spec_slug_char_def)

text \<open>
  The backend's \<^verbatim>\<open>generateSlug\<close> does what the claim says. Its pattern test is the
  specification's pattern; a custom slug that matches the pattern and is no key of the
  Map is returned verbatim, any other is replaced by the loop's slug (a random draw
  that is no key of the Map). On the input above it generates.
\<close>

lemma bshares_has_get: "bshares_has s slug \<longleftrightarrow> bshares_get s slug \<noteq> None"
  by (simp add: bshares_has_def bshares_get_def map_of_eq_None_iff)

lemma bshares_get_set:
  "bshares_get (bshares_set s k v) k' = (if k' = k then Some v else bshares_get s k')"
  by (simp add: bshares_get_def bshares_set_def update_conv')

lemma bshares_get_delete:
  "bshares_get (bshares_delete s slug) k = (if k = slug then None else bshares_get s k)"
  by (simp add: bshares_get_def bshares_delete_def delete_conv')

lemma Share_first_free_Some:
  "Share_first_free s draws = Some x \<Longrightarrow> x \<in> set draws \<and> \<not> bshares_has s x"
  by (induction draws) (auto split: if_splits)

lemma slug_regex_test_spec: "slug_regex_test c = spec_slug_pattern c"
proof -
  have "slug_char = spec_slug_char"
    by (rule ext) (auto simp: slug_char_def spec_slug_char_def Let_def)
  then show ?thesis
    by (simp add: slug_regex_test_def spec_slug_pattern_def)
qed

lemma Share_generateSlug_validates:
  "(Share_generateSlug s (Some c) draws = Some c \<and> c \<notin> set draws
      \<longrightarrow> spec_slug_pattern c \<and> \<not> bshares_has s c)
   \<and> (spec_slug_pattern c \<and> \<not> bshares_has s c \<longrightarrow> Share_generateSlug s (Some c) draws = Some c)
   \<and> (\<not> spec_slug_pattern c \<or> bshares_has s c
        \<longrightarrow> Share_generateSlug s (Some c) draws = Share_first_free s draws)
   \<and> (Share_generateSlug s customSlug draws = Some slug \<longrightarrow> \<not> bshares_has s slug)"
  using Share_first_free_Some [of s draws]
  by (cases customSlug)
     (auto simp: Share_generateSlug_def slug_regex_test_spec spec_slug_pattern_def)

lemma Share_generateSlug_example:
  "Share_generateSlug [] (Some ''../my link'') [''k3x9q2''] = Some ''k3x9q2''
   \<and> Share_generateSlug [] (Some ''my-link_2'') [''k3x9q2''] = Some ''my-link_2''"
  by (simp add: Share_generateSlug_def bshares_has_def slug_regex_test_def slug_char_def)

subsection \<open>Uploads\<close>

text \<open>
  Claim C3 fails on \<^verbatim>\<open>server.js\<close>: its upload handler reads \<^verbatim>\<open>pin\<close>,
  \<^verbatim>\<open>customSlug\<close> and \<^verbatim>\<open>ttl\<close> and checks no range. With \<^verbatim>\<open>ttl\<close> 20000 (above
  10080) and \<^verbatim>\<open>maxDownloads\<close> 5000 (above 1000), or with both 0, the upload succeeds
  and stores a record.
\<close>

theorem upload_accepts_out_of_range:
  "\<forall>sha256_hex.
     upload sha256_hex (ex_req None (Some ''20000'') (Some ''5000'')) ''7d2c'' 1000 1000 [''k3x9q2''] True []
       = Some (UploadOk ''k3x9q2'' 1 10,
               [(''k3x9q2'', ex_share [ex_file ''uploads/1-a.txt''] (JNum 1200001000))])
   \<and> upload sha256_hex (ex_req None (Some ''0'') (Some ''0'')) ''7d2c'' 1000 1000 [''k3x9q2''] True []
       = Some (UploadOk ''k3x9q2'' 1 10,
               [(''k3x9q2'', ex_share [ex_file ''uploads/1-a.txt''] (JNum 1000))])"
  by (simp add: upload_def generateSlug_def shares_has_def shares_set_def shareData_def
      expiry_of_def parseInt_def isStrWhiteSpaceChar_def digitValue_def radixDigit_def
      digitsToNat_def ex_req_def ex_share_def ex_file_def)

text \<open>
  The backend's \<^verbatim>\<open>POST /api/upload\<close> does what the claim says: a \<^verbatim>\<open>ttl\<close> that
  \<^verbatim>\<open>parseInt\<close> reads outside 1..10080, or a \<^verbatim>\<open>maxDownloads\<close> it reads outside
  1..1000, is answered 400 with the state unchanged, and a request that got as far as
  \<^verbatim>\<open>createShare\<close> (answer 201, or 500 when the QR code fails) had both in range.
  The backend's \<^verbatim>\<open>POST /api/upload/single\<close> has the comment "Same validation as
  multiple files" and validates the PIN only: it stores the request that the other
  route refuses.
\<close>

lemma upload_multiple_rejects_ttl:
  assumes "req_files req \<noteq> []"
    and "\<not> (truthy_str (body_pin req) \<and> \<not> Share_validatePin (the (body_pin req)))"
    and "body_ttl req = Some ttl" and "ttl \<noteq> []"
    and "parseInt ttl = Some n" and "n < 1 \<or> 10080 < n"
  shows "upload_multiple sha256_hex toNumber req uuid t_created t_expiry draws qr_ok st
           = Some (INVALID_TTL_400, st)"
  using assms by (auto simp: upload_multiple_def invalid_range_def)

lemma upload_multiple_rejects_maxDownloads:
  assumes "req_files req \<noteq> []"
    and "\<not> (truthy_str (body_pin req) \<and> \<not> Share_validatePin (the (body_pin req)))"
    and "\<not> invalid_range toNumber (body_ttl req) 10080"
    and "body_maxDownloads req = Some m" and "m \<noteq> []"
    and "parseInt m = Some n" and "n < 1 \<or> 1000 < n"
  shows "upload_multiple sha256_hex toNumber req uuid t_created t_expiry draws qr_ok st
           = Some (INVALID_MAX_DOWNLOADS_400, st)"
  using assms by (auto simp: upload_multiple_def invalid_range_def)

lemma upload_multiple_stored_in_range:
  assumes "upload_multiple sha256_hex toNumber req uuid t_created t_expiry draws qr_ok st
             = Some (r, st')"
    and "r = Created_201 slug sh \<or> r = UPLOAD_FAILED_500"
  shows "(body_ttl req = Some ttl \<and> ttl \<noteq> [] \<and> parseInt ttl = Some n \<longrightarrow> 1 \<le> n \<and> n \<le> 10080)
       \<and> (body_maxDownloads req = Some m \<and> m \<noteq> [] \<and> parseInt m = Some k \<longrightarrow> 1 \<le> k \<and> k \<le> 1000)"
  using assms
  by (auto simp: upload_multiple_def invalid_range_def split: if_splits)

lemma upload_multiple_example:
  "\<forall>sha256_hex toNumber.
     upload_multiple sha256_hex toNumber (ex_breq None (Some ''20000'') None) ''7d2c'' 1000 1000
       [''k3x9q2''] True ex_backend = Some (INVALID_TTL_400, ex_backend)
   \<and> upload_multiple sha256_hex toNumber (ex_breq None (Some ''0'') None) ''7d2c'' 1000 1000
       [''k3x9q2''] True ex_backend = Some (INVALID_TTL_400, ex_backend)"
  by (simp add: upload_multiple_def invalid_range_def parseInt_def isStrWhiteSpaceChar_def
      digitValue_def radixDigit_def digitsToNat_def ex_breq_def)

lemma upload_single_accepts_out_of_range:
  "\<forall>sha256_hex.
     upload_single sha256_hex (ex_breq None (Some ''20000'') (Some ''5000'')) ''7d2c'' 1000 1000
       [''k3x9q2''] True ex_backend
       = Some (Created_201 ''k3x9q2'' (ex_bshare (JNum 1200001000) (Some ''5000'')),
               ex_backend\<lparr>bstore := [(''k3x9q2'', ex_bshare (JNum 1200001000) (Some ''5000''))]\<rparr>)"
  by (simp add: upload_single_def create_and_answer_def Share_createShare_def
      Share_generateSlug_def Share_shareData_def bshares_has_def bshares_set_def expiry_of_def
      parseInt_def isStrWhiteSpaceChar_def digitValue_def radixDigit_def digitsToNat_def
      ex_breq_def ex_bshare_def ex_backend_def)

subsection \<open>Downloads\<close>

lemma expired_iff:
  "expired now sh \<longleftrightarrow> (\<exists>e. expiresAt sh = JNum e \<and> e \<noteq> 0 \<and> e < now)"
  by (cases "expiresAt sh") (auto simp: expired_def)

lemma expired_mono: "expired now sh \<Longrightarrow> now \<le> now' \<Longrightarrow> expired now' sh"
  by (cases "expiresAt sh") (auto simp: expired_def)

lemma sweeper_unlink_calls:
  "unlink_calls (snd (sweeper now s d)) =
     unlink_calls d @ concat (map (\<lambda>(k, sh). map path (files sh)) (filter (\<lambda>(k, sh). expired now sh) s))"
  by (induction s arbitrary: d) (auto simp: split_beta unlink_files_calls)

text \<open>
  Claim C1 fails on \<^verbatim>\<open>server.js\<close>: its download handler looks the slug up, checks
  the PIN and sends, and never reads \<^verbatim>\<open>expiresAt\<close>. A share uploaded at time 1000
  with \<^verbatim>\<open>ttl\<close> 1 expires at 61000; at time 70000, before any clean-up cycle, a
  download request against it is sent the file, which is on disk.
\<close>

theorem expired_share_is_served:
  "\<forall>sha256_hex.
     upload sha256_hex (ex_req None (Some ''1'') None) ''7d2c'' 1000 1000 [''k3x9q2''] True []
       = Some (UploadOk ''k3x9q2'' 1 10,
               [(''k3x9q2'', ex_share [ex_file ''uploads/1-a.txt''] (JNum 61000))])
   \<and> expired 70000 (ex_share [ex_file ''uploads/1-a.txt''] (JNum 61000))
   \<and> download sha256_hex [(''k3x9q2'', ex_share [ex_file ''uploads/1-a.txt''] (JNum 61000))]
        ''k3x9q2'' None
       = (SendFile (ex_file ''uploads/1-a.txt''),
          [(''k3x9q2'', (ex_share [ex_file ''uploads/1-a.txt''] (JNum 61000))\<lparr>downloads := 1\<rparr>)])
   \<and> sendFile_delivers ex_disk (ex_file ''uploads/1-a.txt'')"
  by (simp add: sendFile_delivers_def ex_disk_def upload_def generateSlug_def shares_has_def shares_set_def shares_get_def
      shareData_def expiry_of_def parseInt_def isStrWhiteSpaceChar_def digitValue_def
      radixDigit_def digitsToNat_def expired_def download_def pin_rejected_def
      ex_req_def ex_share_def ex_file_def)

text \<open>
  The backend's download route does what the claim says for every expiry time but 0: a
  stored share whose \<^verbatim>\<open>expiresAt\<close> is a non-zero time before \<^verbatim>\<open>Date.now()\<close> is
  deleted, its files unlinked, and the request answered \<^verbatim>\<open>SHARE_EXPIRED\<close>, before
  the PIN is looked at. On the share above it answers so. Its guard is the clean-up
  callback's, with the same slip (claim C9): a share stored with \<^verbatim>\<open>expiresAt = 0\<close>
  through \<^verbatim>\<open>POST /api/upload/single\<close> is served.
\<close>

lemma Share_expired_iff:
  "Share_expired now sh \<longleftrightarrow> (\<exists>e. expiresAt sh = JNum e \<and> e \<noteq> 0 \<and> e < now)"
  by (cases "expiresAt sh") (auto simp: Share_expired_def)

lemma share_download_expired:
  assumes "bshares_get (bstore st) slug = Some sh"
    and "expiresAt sh = JNum e" and "e \<noteq> 0" and "e < now"
  shows "fst (share_download sha256_hex toNumber st slug query_pin header_pin now) = SHARE_EXPIRED_404"
    and "bshares_get (bstore (snd (share_download sha256_hex toNumber st slug query_pin header_pin now))) slug = None"
    and "unlink_calls (bdisk (snd (share_download sha256_hex toNumber st slug query_pin header_pin now)))
           = unlink_calls (bdisk st) @ map path (files sh)"
proof -
  from assms(2-4) have "Share_expired now sh"
    by (simp add: Share_expired_iff)
  with assms(1) have d: "share_download sha256_hex toNumber st slug query_pin header_pin now
      = (SHARE_EXPIRED_404,
         st\<lparr>bstore := bshares_delete (bstore st) slug, bdisk := unlink_files (files sh) (bdisk st)\<rparr>)"
    by (simp add: share_download_def Share_deleteShare_def)
  show "fst (share_download sha256_hex toNumber st slug query_pin header_pin now) = SHARE_EXPIRED_404"
    by (simp add: d)
  show "bshares_get (bstore (snd (share_download sha256_hex toNumber st slug query_pin header_pin now))) slug = None"
    by (simp add: d bshares_get_delete)
  show "unlink_calls (bdisk (snd (share_download sha256_hex toNumber st slug query_pin header_pin now)))
           = unlink_calls (bdisk st) @ map path (files sh)"
    by (simp add: d unlink_files_calls)
qed

lemma backend_expired_example:
  "\<forall>sha256_hex toNumber.
     share_download sha256_hex toNumber
        (ex_backend\<lparr>bstore := [(''k3x9q2'', ex_bshare (JNum 61000) None)]\<rparr>)
        ''k3x9q2'' None None 70000
       = (SHARE_EXPIRED_404,
          ex_backend\<lparr>bdisk := ex_disk\<lparr>on_disk := [''uploads/2-a.txt''],
                                        unlink_calls := [''uploads/1-a.txt'']\<rparr>\<rparr>)"
  by (simp add: share_download_def Share_expired_def Share_deleteShare_def bshares_get_def
      bshares_delete_def unlinkSync_def ex_bshare_def ex_backend_def ex_disk_def ex_file_def)

lemma backend_zero_expiry_is_served:
  "\<forall>sha256_hex toNumber.
     upload_single sha256_hex (ex_breq None (Some ''-29367360'') None) ''7d2c''
        1762041600000 1762041600000 [''k3x9q2''] True ex_backend
       = Some (Created_201 ''k3x9q2'' ((ex_bshare (JNum 0) None)\<lparr>createdAt := 1762041600000\<rparr>),
               ex_backend\<lparr>bstore := [(''k3x9q2'', (ex_bshare (JNum 0) None)\<lparr>createdAt := 1762041600000\<rparr>)]\<rparr>)
   \<and> fst (share_download sha256_hex toNumber
        (ex_backend\<lparr>bstore := [(''k3x9q2'', (ex_bshare (JNum 0) None)\<lparr>createdAt := 1762041600000\<rparr>)]\<rparr>)
        ''k3x9q2'' None None 1762041660000)
       = FileSent (ex_file ''uploads/1-a.txt'')"
  by (simp add: upload_single_def create_and_answer_def Share_createShare_def
      Share_generateSlug_def Share_shareData_def bshares_has_def bshares_set_def bshares_get_def
      expiry_of_def parseInt_def isStrWhiteSpaceChar_def digitValue_def radixDigit_def
      digitsToNat_def share_download_def Share_expired_def limit_reached_def
      Share_validateSharePin_def Share_incrementDownloads_def serve_files_def
      ex_breq_def ex_bshare_def ex_backend_def ex_disk_def ex_file_def)


text \<open>
  The backend does what the claim says. For a stored share whose \<^verbatim>\<open>maxDownloads\<close>
  reads as the number \<open>N\<close>, with no download so far: the first \<open>N\<close> requests that are
  not expired and pass the PIN check are let through and counted, and the \<open>N\<close>-th
  schedules \<^verbatim>\<open>deleteShare\<close>; the next request is answered
  \<^verbatim>\<open>DOWNLOAD_LIMIT_REACHED\<close> and deletes the record, and the one after it
  \<^verbatim>\<open>SHARE_NOT_FOUND\<close>. When the scheduled deletion runs first, the request after the
  \<open>N\<close>-th is answered \<^verbatim>\<open>SHARE_NOT_FOUND\<close>.
\<close>

lemma limit_reached_iff:
  "maxDownloads sh = Some m \<Longrightarrow> m \<noteq> [] \<Longrightarrow> toNumber m = DFin (int N) 0 \<Longrightarrow>
   limit_reached toNumber sh \<longleftrightarrow> N \<le> downloads sh"
  by (simp add: limit_reached_def)

lemma share_download_limit:
  assumes "bshares_get (bstore st) slug = Some sh"
    and "\<not> Share_expired now sh" and "limit_reached toNumber sh"
  shows "share_download sha256_hex toNumber st slug q h now
           = (DOWNLOAD_LIMIT_REACHED_410,
              st\<lparr>bstore := bshares_delete (bstore st) slug,
                 bdisk := unlink_files (files sh) (bdisk st)\<rparr>)"
  using assms by (simp add: share_download_def Share_deleteShare_def)

lemma share_download_authorized:
  assumes "bshares_get (bstore st) slug = Some sh"
    and "\<not> Share_expired now sh" and "\<not> limit_reached toNumber sh"
    and "pin_accepted sha256_hex sh q"
  shows "share_download sha256_hex toNumber st slug q None now
           = (serve_files (bdisk st) (files sh),
              st\<lparr>bstore := bshares_set (bstore st) slug (sh\<lparr>downloads := downloads sh + 1\<rparr>),
                 btimers := (if limit_reached toNumber (sh\<lparr>downloads := downloads sh + 1\<rparr>)
                             then btimers st @ [slug] else btimers st)\<rparr>)"
proof -
  from assms(1,4) have "Share_validateSharePin sha256_hex (bstore st) slug
      (if truthy_str q then q else None)"
    by (auto simp: Share_validateSharePin_def pin_accepted_def)
  with assms(1-3) show ?thesis
    by (simp add: share_download_def Share_incrementDownloads_def)
qed

lemma share_download_absent:
  "bshares_get (bstore st) slug = None \<Longrightarrow>
   share_download sha256_hex toNumber st slug q h now = (SHARE_NOT_FOUND_404, st)"
  by (simp add: share_download_def)

lemma download_seq_below_limit:
  assumes "bshares_get (bstore st) slug = Some sh"
    and "maxDownloads sh = Some m" and "m \<noteq> []" and "toNumber m = DFin (int N) 0"
    and "downloads sh + length reqs \<le> N"
    and "\<forall>(q, now) \<in> set reqs. \<not> Share_expired now sh \<and> pin_accepted sha256_hex sh q"
  shows "fst (share_download_seq sha256_hex toNumber st slug reqs)
           = replicate (length reqs) (serve_files (bdisk st) (files sh))
       \<and> bshares_get (bstore (snd (share_download_seq sha256_hex toNumber st slug reqs))) slug
           = Some (sh\<lparr>downloads := downloads sh + length reqs\<rparr>)
       \<and> btimers (snd (share_download_seq sha256_hex toNumber st slug reqs))
           = (if reqs \<noteq> [] \<and> downloads sh + length reqs = N then btimers st @ [slug]
              else btimers st)
       \<and> bdisk (snd (share_download_seq sha256_hex toNumber st slug reqs)) = bdisk st"
  using assms
proof (induction reqs arbitrary: st sh)
  case Nil
  then show ?case by simp
next
  case (Cons r reqs)
  obtain q now where r: "r = (q, now)" by (cases r)
  let ?sh1 = "sh\<lparr>downloads := downloads sh + 1\<rparr>"
  let ?st1 = "st\<lparr>bstore := bshares_set (bstore st) slug ?sh1,
                 btimers := (if limit_reached toNumber ?sh1 then btimers st @ [slug] else btimers st)\<rparr>"
  from Cons.prems r have below: "downloads sh < N"
    and ok: "\<not> Share_expired now sh" "pin_accepted sha256_hex sh q"
    by auto
  from below Cons.prems(2-4) have nl: "\<not> limit_reached toNumber sh"
    by (simp add: limit_reached_iff)
  have d: "share_download sha256_hex toNumber st slug q None now
      = (serve_files (bdisk st) (files sh), ?st1)"
    using share_download_authorized [OF Cons.prems(1) ok(1) nl ok(2)] .
  have g1: "bshares_get (bstore ?st1) slug = Some ?sh1"
    by (simp add: bshares_get_set)
  have m1: "maxDownloads ?sh1 = Some m"
    using Cons.prems(2) by simp
  have l1: "downloads ?sh1 + length reqs \<le> N"
    using Cons.prems(5) by simp
  have ok1: "\<forall>(q, now) \<in> set reqs. \<not> Share_expired now ?sh1 \<and> pin_accepted sha256_hex ?sh1 q"
    using Cons.prems(6) by (auto simp: Share_expired_def pin_accepted_def)
  note ih = Cons.IH [OF g1 m1 Cons.prems(3,4) l1 ok1]
  have lr1: "limit_reached toNumber ?sh1 \<longleftrightarrow> N \<le> downloads sh + 1"
    using limit_reached_iff [where toNumber = toNumber and sh = ?sh1 and m = m and N = N]
      m1 Cons.prems(3,4) by simp
  have timers: "btimers (snd (share_download_seq sha256_hex toNumber ?st1 slug reqs))
      = (if downloads sh + length (r # reqs) = N then btimers st @ [slug] else btimers st)"
  proof (cases "reqs = []")
    case True
    with lr1 below show ?thesis by auto
  next
    case False
    with l1 have "\<not> N \<le> downloads sh + 1" by (cases reqs) auto
    with lr1 ih False show ?thesis by simp
  qed
  from ih timers show ?case
    by (simp add: r d split_beta)
qed

lemma serve_files_authorized: "authorized (serve_files d fs)"
  by (simp add: serve_files_def authorized_def Let_def split: list.splits)

lemma download_cap:
  assumes "bshares_get (bstore st) slug = Some sh"
    and "maxDownloads sh = Some m" and "m \<noteq> []" and "toNumber m = DFin (int N) 0"
    and "downloads sh = 0" and "0 < N" and "length reqs = N"
    and "\<forall>(q, now) \<in> set reqs. \<not> Share_expired now sh \<and> pin_accepted sha256_hex sh q"
    and "\<not> Share_expired now' sh"
  shows "fst (share_download_seq sha256_hex toNumber st slug (reqs @ [(q', now'), (q'', now'')]))
           = replicate N (serve_files (bdisk st) (files sh))
               @ [DOWNLOAD_LIMIT_REACHED_410, SHARE_NOT_FOUND_404]"
    and "btimers (snd (share_download_seq sha256_hex toNumber st slug reqs)) = btimers st @ [slug]"
    and "btimers st = [] \<Longrightarrow>
         fst (share_download sha256_hex toNumber
                (timer_fires (snd (share_download_seq sha256_hex toNumber st slug reqs)))
                slug q' None now') = SHARE_NOT_FOUND_404"
proof -
  let ?st1 = "snd (share_download_seq sha256_hex toNumber st slug reqs)"
  let ?shN = "sh\<lparr>downloads := downloads sh + length reqs\<rparr>"
  from assms(5,7) have le: "downloads sh + length reqs \<le> N" by simp
  have seq: "fst (share_download_seq sha256_hex toNumber st slug reqs)
           = replicate (length reqs) (serve_files (bdisk st) (files sh))
       \<and> bshares_get (bstore (snd (share_download_seq sha256_hex toNumber st slug reqs))) slug
           = Some (sh\<lparr>downloads := downloads sh + length reqs\<rparr>)
       \<and> btimers (snd (share_download_seq sha256_hex toNumber st slug reqs))
           = (if reqs \<noteq> [] \<and> downloads sh + length reqs = N then btimers st @ [slug]
              else btimers st)
       \<and> bdisk (snd (share_download_seq sha256_hex toNumber st slug reqs)) = bdisk st"
    using assms(1-4) le assms(8)
    by (rule download_seq_below_limit [where toNumber = toNumber and m = m and N = N])
  from seq have r1: "fst (share_download_seq sha256_hex toNumber st slug reqs)
      = replicate N (serve_files (bdisk st) (files sh))"
    and g1: "bshares_get (bstore ?st1) slug = Some ?shN"
    using assms(7) by simp_all
  from assms(6,7) have ne: "reqs \<noteq> []" by auto
  with seq assms(5,7) show t1: "btimers ?st1 = btimers st @ [slug]" by simp
  have lim: "limit_reached toNumber ?shN"
    using limit_reached_iff [of ?shN m toNumber N] assms(2-5,7) by simp
  have ne': "\<not> Share_expired now' ?shN"
    using assms(9) by (simp add: Share_expired_def)
  note d2 = share_download_limit [OF g1 ne' lim, of sha256_hex q' None]
  have app: "share_download_seq sha256_hex toNumber st slug (xs @ ys)
      = (fst (share_download_seq sha256_hex toNumber st slug xs)
           @ fst (share_download_seq sha256_hex toNumber
                    (snd (share_download_seq sha256_hex toNumber st slug xs)) slug ys),
         snd (share_download_seq sha256_hex toNumber
                (snd (share_download_seq sha256_hex toNumber st slug xs)) slug ys))"
    for st xs ys
    by (induction xs arbitrary: st) (auto simp: split_beta)
  show "fst (share_download_seq sha256_hex toNumber st slug (reqs @ [(q', now'), (q'', now'')]))
           = replicate N (serve_files (bdisk st) (files sh))
               @ [DOWNLOAD_LIMIT_REACHED_410, SHARE_NOT_FOUND_404]"
    by (simp add: app r1 d2 share_download_absent bshares_get_delete)
  assume "btimers st = []"
  with t1 have "btimers ?st1 = [slug]" by simp
  with g1 have "bshares_get (bstore (timer_fires ?st1)) slug = None"
    by (simp add: timer_fires_def Share_deleteShare_def bshares_get_delete)
  then show "fst (share_download sha256_hex toNumber
                (timer_fires ?st1) slug q' None now') = SHARE_NOT_FOUND_404"
    by (simp add: share_download_absent)
qed

lemma download_cap_count:
  assumes "bshares_get (bstore st) slug = Some sh"
    and "maxDownloads sh = Some m" and "m \<noteq> []" and "toNumber m = DFin (int N) 0"
    and "downloads sh = 0" and "0 < N" and "length reqs = N"
    and "\<forall>(q, now) \<in> set reqs. \<not> Share_expired now sh \<and> pin_accepted sha256_hex sh q"
    and "\<not> Share_expired now' sh"
  shows "length (filter authorized
           (fst (share_download_seq sha256_hex toNumber st slug (reqs @ [(q', now'), (q'', now'')]))))
         = N"
proof -
  have "fst (share_download_seq sha256_hex toNumber st slug (reqs @ [(q', now'), (q'', now'')]))
           = replicate N (serve_files (bdisk st) (files sh))
               @ [DOWNLOAD_LIMIT_REACHED_410, SHARE_NOT_FOUND_404]"
    using assms by (rule download_cap(1) [where toNumber = toNumber and m = m])
  moreover have "\<not> authorized DOWNLOAD_LIMIT_REACHED_410" and "\<not> authorized SHARE_NOT_FOUND_404"
    by (simp_all add: authorized_def)
  ultimately show ?thesis
    by (simp add: serve_files_authorized)
qed

subsection \<open>The clean-up cycle\<close>

lemma sweeper_removes_expired:
  assumes "distinct (map fst s)"
  shows "shares_get (fst (sweeper now s d)) slug =
           (case shares_get s slug of None \<Rightarrow> None
            | Some sh \<Rightarrow> if expired now sh then None else Some sh)"
    and "unlink_calls (snd (sweeper now s d)) =
           unlink_calls d @ concat (map (\<lambda>(k, sh). map path (files sh))
             (filter (\<lambda>(k, sh). expired now sh) s))"
  using assms by (simp_all add: shares_get_sweeper sweeper_unlink_calls)


text \<open>
  Claim C9 fails on a record whose \<^verbatim>\<open>expiresAt\<close> is the number 0. An upload handled
  at \<^verbatim>\<open>Date.now() = 1762041600000\<close> with \<^verbatim>\<open>ttl = -29367360\<close> stores
  \<^verbatim>\<open>expiresAt = 0\<close>; the guard \<^verbatim>\<open>share.expiresAt && ...\<close> reads 0 as false, so the
  cycle one minute later keeps the record and unlinks nothing, although its expiry time
  is set and has passed. (For every other expiry time the cycle does what the claim says:
  \<open>sweeper_removes_expired\<close>, \<open>expired_iff\<close>.)
\<close>

theorem sweeper_keeps_zero_expiry:
  "\<forall>sha256_hex.
     upload sha256_hex (ex_req None (Some ''-29367360'') None) ''7d2c'' 1762041600000 1762041600000
        [''k3x9q2''] True []
       = Some (UploadOk ''k3x9q2'' 1 10,
               [(''k3x9q2'', (ex_share [ex_file ''uploads/1-a.txt''] (JNum 0))\<lparr>createdAt := 1762041600000\<rparr>)])
   \<and> sweeper 1762041660000
        [(''k3x9q2'', (ex_share [ex_file ''uploads/1-a.txt''] (JNum 0))\<lparr>createdAt := 1762041600000\<rparr>)]
        ex_disk
       = ([(''k3x9q2'', (ex_share [ex_file ''uploads/1-a.txt''] (JNum 0))\<lparr>createdAt := 1762041600000\<rparr>)],
          ex_disk)"
  by (simp add: upload_def generateSlug_def shares_has_def shares_set_def
      shareData_def expiry_of_def parseInt_def isStrWhiteSpaceChar_def digitValue_def
      radixDigit_def digitsToNat_def expired_def ex_req_def ex_share_def ex_file_def)

subsection \<open>PIN digests\<close>

text \<open>
  The stored digest is the library's SHA-256 of the PIN and of nothing else; the PIN
  that was stored is accepted; another PIN is rejected exactly when its digest differs.
  Whether two four-digit PINs can have the same digest is a fact about SHA-256 itself,
  which is a parameter here. The backend hashes the PIN followed by the constant
  \<^verbatim>\<open>'sharelink_salt'\<close>.
\<close>

lemma stored_pin:
  "pin (shareData sha256_hex req uuid t_created t_expiry) =
     (if truthy_str (body_pin req) then Some (sha256_hex (the (body_pin req))) else None)"
  by (simp add: shareData_def hashPin_def)

lemma Share_stored_pin:
  "pin (Share_shareData sha256_hex req uuid t_created t_expiry) =
     (if truthy_str (body_pin req)
      then Some (sha256_hex (the (body_pin req) @ ''sharelink_salt'')) else None)"
  by (simp add: Share_shareData_def Share_hashPin_def)

lemma pin_roundtrip:
  "body_pin req = Some p \<Longrightarrow>
   \<not> pin_rejected sha256_hex (shareData sha256_hex req uuid t_created t_expiry) (Some p)"
  by (simp add: pin_rejected_def shareData_def)

lemma other_pin_rejected_iff:
  "body_pin req = Some p \<Longrightarrow> p \<noteq> [] \<Longrightarrow> p' \<noteq> [] \<Longrightarrow> sha256_hex p \<noteq> [] \<Longrightarrow>
   pin_rejected sha256_hex (shareData sha256_hex req uuid t_created t_expiry) (Some p')
     \<longleftrightarrow> sha256_hex p' \<noteq> sha256_hex p"
  by (simp add: pin_rejected_def shareData_def hashPin_def)

end
